theory Spec2Isabelle
  imports Complex_Main "HOL-Library.Product_Lexorder"
begin

section \<open>Data model\<close>

text \<open>
  Calendar dates are triples (year, month, day) and timestamps are a date with an hour and
  a minute. Both are ordered lexicographically, which is the chronological order that
  \<^verbatim>\<open>datetime\<close> and \<^verbatim>\<open>pandas.Timestamp\<close> comparisons use.
\<close>

type_synonym date = "int \<times> nat \<times> nat"
type_synonym timestamp = "date \<times> nat \<times> nat"

text \<open>
  A cell of a table: a missing value (NaN), a number, or a calendar date (the value that
  \<^verbatim>\<open>.dt.date\<close> stores in a \<^verbatim>\<open>date\<close> column). Numbers are exact
  rationals: floating-point round-off of the float64 columns is not part of the model.
  Every value column is taken as a numeric column, NaN where a value is missing; columns of
  other types (text, or a column that holds no number at all and so has no numeric type) are
  not represented.
\<close>

datatype cell = Missing | Num rat | Day date

text \<open>
  A \<^verbatim>\<open>DataFrame\<close> with a \<^verbatim>\<open>time\<close> column, row by row: \<open>columns\<close> are the
  names of the other columns in order, and every row is its timestamp with one cell per
  column.
\<close>

record frame =
  columns :: "string list"
  rows :: "(timestamp \<times> cell list) list"

text \<open>A \<^verbatim>\<open>DataFrame\<close> as the code receives it: the \<^verbatim>\<open>time\<close> column may be absent.\<close>

datatype dataframe =
    WithTime frame
  | WithoutTime "string list" "cell list list"

fun len :: "dataframe \<Rightarrow> nat" where
  "len (WithTime f) = length (rows f)"
| "len (WithoutTime cs rs) = length rs"

text \<open>
  The table that \<^verbatim>\<open>get_daily_summary\<close> returns: after \<^verbatim>\<open>reset_index\<close> its first
  column is \<^verbatim>\<open>date\<close> (calendar dates) and it has no \<^verbatim>\<open>time\<close> column.
\<close>

record summary =
  scolumns :: "string list"
  srows :: "(date \<times> cell list) list"

definition frame_column_names :: "frame \<Rightarrow> string list" where
  "frame_column_names f = ''time'' # columns f"

definition summary_column_names :: "summary \<Rightarrow> string list" where
  "summary_column_names s = ''date'' # scolumns s"

fun numeric_cell :: "cell \<Rightarrow> bool" where
  "numeric_cell (Day d) = False"
| "numeric_cell c = True"

text \<open>
  The tables that the pipeline fetches, merges and resamples: column names are unique,
  none is \<^verbatim>\<open>time\<close>, every row has one cell per column, and the cells are numbers or
  missing values.
\<close>

definition wf_frame :: "frame \<Rightarrow> bool" where
  "wf_frame f \<longleftrightarrow>
     distinct (columns f) \<and> ''time'' \<notin> set (columns f) \<and>
     list_all (\<lambda>r. length (snd r) = length (columns f) \<and> list_all numeric_cell (snd r)) (rows f)"

definition timestamps :: "frame \<Rightarrow> timestamp list" where
  "timestamps f = map fst (rows f)"

section \<open>The group catalog\<close>

definition VARIABLE_GROUPS :: "(string \<times> string list) list" where
  "VARIABLE_GROUPS =
    [(''basic_weather'',
       [''temperature_2m'', ''apparent_temperature'', ''relative_humidity_2m'',
        ''dewpoint_2m'', ''precipitation'', ''rain'', ''snowfall'', ''wind_speed_10m'',
        ''wind_direction_10m'', ''pressure_msl'', ''surface_pressure'', ''cloud_cover'',
        ''cloud_cover_low'', ''cloud_cover_mid'', ''cloud_cover_high'']),
     (''solar_radiation'',
       [''shortwave_radiation'', ''direct_radiation'', ''diffuse_radiation'']),
     (''soil'',
       [''soil_temperature_0cm'', ''soil_temperature_6cm'', ''soil_moisture_0_1cm''])]"

definition get_available_groups :: "(string \<times> string list) list" where
  "get_available_groups = VARIABLE_GROUPS"

section \<open>The external source\<close>

record params =
  latitude :: rat
  longitude :: rat
  start_date :: string
  end_date :: string
  hourly :: string
  timezone :: string

text \<open>
  What one request to the archive leads to, one constructor per path of the
  \<^verbatim>\<open>try\<close> block of \<^verbatim>\<open>extract_weather_data_multi\<close>:
  \<^item> \<open>TransportError\<close>: \<^verbatim>\<open>requests.get\<close> raises (no connection, timeout);
  \<^item> \<open>HttpStatusError\<close>: \<^verbatim>\<open>raise_for_status\<close> raises;
  \<^item> \<open>InvalidJson\<close>: \<^verbatim>\<open>response.json()\<close> raises;
  \<^item> \<open>NoHourly\<close>: the decoded body has no \<^verbatim>\<open>hourly\<close> key;
  \<^item> \<open>BadHourly\<close>: building the \<^verbatim>\<open>DataFrame\<close> or converting its
    \<^verbatim>\<open>time\<close> column raises;
  \<^item> \<open>Hourly df\<close>: the table built from the payload, its \<^verbatim>\<open>time\<close> column (when it
    has one) converted to timestamps.
\<close>

datatype response =
    TransportError
  | HttpStatusError
  | InvalidJson
  | NoHourly
  | BadHourly
  | Hourly dataframe

text \<open>
  The environment of a run: the date parser \<^verbatim>\<open>datetime.strptime(_, '%Y-%m-%d')\<close>
  (\<open>None\<close> when it raises) and the archive's answer to each request.
\<close>

record world =
  strptime :: "string \<Rightarrow> date option"
  http_get :: "params \<Rightarrow> response"

text \<open>What a run does that is visible outside: requests and console messages of the fetch loop.\<close>

datatype event =
    PrintFetching string "string list"
  | HttpGet params
  | PrintWarningNoData string
  | PrintRetrieved nat
  | PrintErrorFailed string

text \<open>
  The exceptions that leave the functions modelled here:
  \<^item> \<open>DateFormatError\<close>: the \<^verbatim>\<open>ValueError\<close> of \<^verbatim>\<open>strptime\<close> for a string that is
    no date;
  \<^item> \<open>InvalidDateRange\<close>: \<^verbatim>\<open>ValueError("Start date must be before end date")\<close>;
  \<^item> \<open>NoDataRetrieved\<close>:
    \<^verbatim>\<open>ValueError("No data was successfully retrieved from any group")\<close>;
  \<^item> \<open>KeyErrorTime\<close>: the \<^verbatim>\<open>KeyError\<close> of merging or sorting on \<^verbatim>\<open>time\<close> a table
    that has no such column;
  \<^item> \<open>MissingTimeColumn\<close>: \<^verbatim>\<open>ValueError("Data must have a 'time' column")\<close> of
    \<^verbatim>\<open>get_daily_summary\<close>.
\<close>

datatype error =
    DateFormatError
  | InvalidDateRange
  | NoDataRetrieved
  | KeyErrorTime
  | MissingTimeColumn

section \<open>Fetching\<close>

fun join :: "string \<Rightarrow> string list \<Rightarrow> string" where
  "join sep [] = []"
| "join sep [x] = x"
| "join sep (x # y # xs) = x @ sep @ join sep (y # xs)"

definition request_params :: "rat \<Rightarrow> rat \<Rightarrow> string \<Rightarrow> string \<Rightarrow> string list \<Rightarrow> params" where
  "request_params lat lon sd ed variables =
     \<lparr>latitude = lat, longitude = lon, start_date = sd, end_date = ed,
      hourly = join '','' variables, timezone = ''auto''\<rparr>"

text \<open>
  One iteration of the loop over \<^verbatim>\<open>active_groups.items()\<close>, on the state
  (\<^verbatim>\<open>all_dataframes\<close>, events so far).
\<close>

definition fetch_group ::
  "world \<Rightarrow> rat \<Rightarrow> rat \<Rightarrow> string \<Rightarrow> string \<Rightarrow> string \<times> bool \<Rightarrow>
   dataframe list \<times> event list \<Rightarrow> dataframe list \<times> event list" where
  "fetch_group w lat lon sd ed item st =
     (case item of (group_name, include) \<Rightarrow>
     (case st of (all_dataframes, trace) \<Rightarrow>
        if \<not> include then st
        else
          (case map_of VARIABLE_GROUPS group_name of
             None \<Rightarrow> st
           | Some variables \<Rightarrow>
               (let p = request_params lat lon sd ed variables;
                    log1 = trace @ [PrintFetching group_name variables, HttpGet p]
                in (case http_get w p of
                      NoHourly \<Rightarrow> (all_dataframes, log1 @ [PrintWarningNoData group_name])
                    | Hourly df \<Rightarrow> (all_dataframes @ [df], log1 @ [PrintRetrieved (len df)])
                    | _ \<Rightarrow> (all_dataframes, log1 @ [PrintErrorFailed group_name]))))))"

fun fetch_loop ::
  "world \<Rightarrow> rat \<Rightarrow> rat \<Rightarrow> string \<Rightarrow> string \<Rightarrow> (string \<times> bool) list \<Rightarrow>
   dataframe list \<times> event list \<Rightarrow> dataframe list \<times> event list" where
  "fetch_loop w lat lon sd ed [] st = st"
| "fetch_loop w lat lon sd ed (item # items) st =
     fetch_loop w lat lon sd ed items (fetch_group w lat lon sd ed item st)"

section \<open>Merging on the time column\<close>

definition endswith :: "string \<Rightarrow> string \<Rightarrow> bool" where
  "endswith s suf \<longleftrightarrow> length suf \<le> length s \<and> drop (length s - length suf) s = suf"

definition null_cells :: "nat \<Rightarrow> cell list" where
  "null_cells n = replicate n Missing"

definition cells_at :: "frame \<Rightarrow> timestamp \<Rightarrow> cell list list" where
  "cells_at f k = map snd (filter (\<lambda>r. fst r = k) (rows f))"

text \<open>
  The rows of an outer join for one key: every pairing of a left row with a right row of
  that key; a key that only one side has keeps that side's rows, the other side's columns
  missing.
\<close>

definition join_rows :: "frame \<Rightarrow> frame \<Rightarrow> timestamp \<Rightarrow> (timestamp \<times> cell list) list" where
  "join_rows l r k =
     (let ls = cells_at l k; rs = cells_at r k
      in if rs = [] then map (\<lambda>a. (k, a @ null_cells (length (columns r)))) ls
         else if ls = [] then map (\<lambda>b. (k, null_cells (length (columns l)) @ b)) rs
         else concat (map (\<lambda>a. map (\<lambda>b. (k, a @ b)) rs) ls))"

text \<open>
  \<^verbatim>\<open>pd.merge(l, r, on='time', how='outer', suffixes=('', '_dup'))\<close>: the keys of both
  sides in ascending order; a column name of the right table that the left table has too
  gets the suffix \<^verbatim>\<open>_dup\<close>, the left one keeps its name.
\<close>

definition pd_merge :: "frame \<Rightarrow> frame \<Rightarrow> frame" where
  "pd_merge l r =
     \<lparr>columns = columns l @
                 map (\<lambda>c. if c \<in> set (columns l) then c @ ''_dup'' else c) (columns r),
      rows = concat (map (join_rows l r) (sort (remdups (timestamps l @ timestamps r))))\<rparr>"

definition keep_cells :: "(string \<Rightarrow> bool) \<Rightarrow> string list \<Rightarrow> cell list \<Rightarrow> cell list" where
  "keep_cells P cs vs = map snd (filter (\<lambda>cv. P (fst cv)) (zip cs vs))"

text \<open>
  \<^verbatim>\<open>cols_to_drop = [col for col in merged_df.columns if col.endswith('_dup')]\<close> and
  \<^verbatim>\<open>merged_df.drop(columns=cols_to_drop)\<close>.
\<close>

definition drop_dup_columns :: "frame \<Rightarrow> frame" where
  "drop_dup_columns f =
     \<lparr>columns = filter (\<lambda>c. \<not> endswith c ''_dup'') (columns f),
      rows = map (\<lambda>r. (fst r, keep_cells (\<lambda>c. \<not> endswith c ''_dup'') (columns f) (snd r)))
               (rows f)\<rparr>"

definition merge_step :: "frame \<Rightarrow> frame \<Rightarrow> frame" where
  "merge_step merged_df df = drop_dup_columns (pd_merge merged_df df)"

text \<open>
  The loop over \<^verbatim>\<open>all_dataframes[1:]\<close>. Merging on \<^verbatim>\<open>time\<close> raises a
  \<^verbatim>\<open>KeyError\<close> when either table has no such column.
\<close>

fun merge_loop :: "dataframe \<Rightarrow> dataframe list \<Rightarrow> error + dataframe" where
  "merge_loop merged_df [] = Inr merged_df"
| "merge_loop (WithTime l) (WithTime r # dfs) = merge_loop (WithTime (merge_step l r)) dfs"
| "merge_loop merged_df (df # dfs) = Inl KeyErrorTime"

text \<open>
  \<^verbatim>\<open>merged_df.sort_values('time')\<close>. The model sorts stably; the order that the
  library gives to rows of equal timestamp is not relied on.
\<close>

fun sort_values_time :: "dataframe \<Rightarrow> error + frame" where
  "sort_values_time (WithTime f) = Inr (f\<lparr>rows := sort_key fst (rows f)\<rparr>)"
| "sort_values_time (WithoutTime cs rs) = Inl KeyErrorTime"

section \<open>Aggregation\<close>

definition date_of :: "timestamp \<Rightarrow> date" where
  "date_of t = fst t"

definition year_month_of :: "timestamp \<Rightarrow> int \<times> nat" where
  "year_month_of t = (case t of ((y, m, d), hm) \<Rightarrow> (y, m))"

definition midnight :: "date \<Rightarrow> timestamp" where
  "midnight d = (d, 0, 0)"

definition month_start :: "int \<times> nat \<Rightarrow> timestamp" where
  "month_start ym = (case ym of (y, m) \<Rightarrow> ((y, m, 1), 0, 0))"

datatype stat = StatMean | StatMin | StatMax | StatSum

fun stat_name :: "stat \<Rightarrow> string" where
  "stat_name StatMean = ''mean''"
| "stat_name StatMin = ''min''"
| "stat_name StatMax = ''max''"
| "stat_name StatSum = ''sum''"

fun numbers :: "cell list \<Rightarrow> rat list" where
  "numbers [] = []"
| "numbers (Num x # cs) = x # numbers cs"
| "numbers (c # cs) = numbers cs"

text \<open>
  The statistics of one group of one column. Missing values are skipped; with nothing left,
  mean, min and max are missing, and the sum is the empty sum.
\<close>

fun agg :: "stat \<Rightarrow> cell list \<Rightarrow> cell" where
  "agg StatMean cs = (case numbers cs of [] \<Rightarrow> Missing
                  | x # xs \<Rightarrow> Num (sum_list (x # xs) / of_nat (length (x # xs))))"
| "agg StatMin cs = (case numbers cs of [] \<Rightarrow> Missing | x # xs \<Rightarrow> Num (fold min xs x))"
| "agg StatMax cs = (case numbers cs of [] \<Rightarrow> Missing | x # xs \<Rightarrow> Num (fold max xs x))"
| "agg StatSum cs = Num (sum_list (numbers cs))"

text \<open>Rounding to the nearest integer, a tie to the even neighbour.\<close>

definition rint :: "rat \<Rightarrow> int" where
  "rint x = (let f = \<lfloor>x\<rfloor>; d = x - of_int f
             in if d < 1 / 2 then f else if 1 / 2 < d then f + 1
                else if even f then f else f + 1)"

fun round_cell :: "nat \<Rightarrow> cell \<Rightarrow> cell" where
  "round_cell n (Num x) = Num (of_int (rint (x * 10 ^ n)) / 10 ^ n)"
| "round_cell n c = c"

definition cell_at :: "string list \<Rightarrow> cell list \<Rightarrow> string \<Rightarrow> cell" where
  "cell_at cs vs c = (case map_of (zip cs vs) c of Some v \<Rightarrow> v | None \<Rightarrow> Missing)"

definition group_cells :: "(timestamp \<Rightarrow> 'k) \<Rightarrow> frame \<Rightarrow> 'k \<Rightarrow> string \<Rightarrow> cell list" where
  "group_cells key f k c =
     map (\<lambda>r. cell_at (columns f) (snd r) c) (filter (\<lambda>r. key (fst r) = k) (rows f))"

text \<open>
  \<^verbatim>\<open>groupby(key)[cols].agg(...).round(2)\<close>: one row per key in ascending order, and
  for every column of \<open>cols\<close>, in order, one cell per statistic. The aggregation is
  modelled for at least one column; what the library does when asked to aggregate no
  column at all is not represented, and the statements below about aggregated tables
  assume a column to aggregate.
\<close>

definition groupby_agg ::
  "(timestamp \<Rightarrow> 'k::linorder) \<Rightarrow> stat list \<Rightarrow> string list \<Rightarrow> frame \<Rightarrow> ('k \<times> cell list) list" where
  "groupby_agg key stats cols f =
     map (\<lambda>k. (k, concat (map (\<lambda>c. map (\<lambda>s. round_cell 2 (agg s (group_cells key f k c))) stats)
                            cols)))
         (sort (remdups (map (\<lambda>r. key (fst r)) (rows f))))"

definition flatten_names :: "stat list \<Rightarrow> string list \<Rightarrow> string list" where
  "flatten_names stats cols = concat (map (\<lambda>c. map (\<lambda>s. c @ ''_'' @ stat_name s) stats) cols)"

definition resample_to_daily :: "frame \<Rightarrow> frame" where
  "resample_to_daily df =
     (let numeric_cols = filter (\<lambda>col. col \<notin> set [''time'', ''date'']) (columns df);
          df_daily = groupby_agg date_of [StatMean, StatMin, StatMax] numeric_cols df
      in \<lparr>columns = flatten_names [StatMean, StatMin, StatMax] numeric_cols,
          rows = map (\<lambda>g. (midnight (fst g), snd g)) df_daily\<rparr>)"

definition resample_to_monthly :: "frame \<Rightarrow> frame" where
  "resample_to_monthly df =
     (let numeric_cols =
            filter (\<lambda>col. col \<notin> set [''time'', ''date'', ''year_month'']) (columns df);
          df_monthly = groupby_agg year_month_of [StatMean, StatMin, StatMax, StatSum] numeric_cols df
      in \<lparr>columns = flatten_names [StatMean, StatMin, StatMax, StatSum] numeric_cols,
          rows = map (\<lambda>g. (month_start (fst g), snd g)) df_monthly\<rparr>)"

text \<open>
  \<^verbatim>\<open>df['date'] = pd.to_datetime(df['time']).dt.date\<close> on the caller's table: a
  \<^verbatim>\<open>date\<close> column that exists is overwritten in its place, otherwise the column is
  appended.
\<close>

definition set_date_column :: "frame \<Rightarrow> frame" where
  "set_date_column f =
     (if ''date'' \<in> set (columns f)
      then f\<lparr>rows := map (\<lambda>r. (fst r, map (\<lambda>cv. if fst cv = ''date'' then Day (date_of (fst r))
                                                  else snd cv)
                                         (zip (columns f) (snd r))))
                         (rows f)\<rparr>
      else \<lparr>columns = columns f @ [''date''],
            rows = map (\<lambda>r. (fst r, snd r @ [Day (date_of (fst r))])) (rows f)\<rparr>)"

text \<open>
  \<^verbatim>\<open>get_daily_summary\<close> returns its result together with the caller's table as the call
  leaves it.
\<close>

fun get_daily_summary :: "dataframe \<Rightarrow> (error + summary) \<times> dataframe" where
  "get_daily_summary (WithoutTime cs rs) = (Inl MissingTimeColumn, WithoutTime cs rs)"
| "get_daily_summary (WithTime df0) =
     (let df = set_date_column df0;
          numeric_cols = filter (\<lambda>col. col \<notin> set [''time'', ''date'']) (columns df);
          daily_summary = groupby_agg date_of [StatMean, StatMin, StatMax, StatSum] numeric_cols df
      in (Inr \<lparr>scolumns = flatten_names [StatMean, StatMin, StatMax, StatSum] numeric_cols,
               srows = daily_summary\<rparr>,
          WithTime df))"

section \<open>The pipeline\<close>

definition apply_resolution :: "string \<Rightarrow> frame \<Rightarrow> frame" where
  "apply_resolution temporal_resolution merged_df =
     (if temporal_resolution = ''daily'' then resample_to_daily merged_df
      else if temporal_resolution = ''monthly'' then resample_to_monthly merged_df
      else merged_df)"

text \<open>
  The part of \<^verbatim>\<open>extract_weather_data_multi\<close> after the fetch loop: the check that
  something was retrieved, the merge loop, the sort and the resampling.
\<close>

definition merge_and_resample :: "dataframe list \<Rightarrow> string \<Rightarrow> error + frame" where
  "merge_and_resample all_dataframes temporal_resolution =
     (case all_dataframes of
        [] \<Rightarrow> Inl NoDataRetrieved
      | df0 # dfs \<Rightarrow>
          (case merge_loop df0 dfs of
             Inl e \<Rightarrow> Inl e
           | Inr m \<Rightarrow>
               (case sort_values_time m of
                  Inl e \<Rightarrow> Inl e
                | Inr merged_df \<Rightarrow> Inr (apply_resolution temporal_resolution merged_df))))"

text \<open>
  \<^verbatim>\<open>extract_weather_data_multi\<close>, with the events of the run. Writing the optional
  output file and the progress messages after the fetch loop are left out.
\<close>

definition extract_weather_data_multi ::
  "world \<Rightarrow> rat \<Rightarrow> rat \<Rightarrow> string \<Rightarrow> string \<Rightarrow> (string \<times> bool) list \<Rightarrow> string \<Rightarrow>
   (error + frame) \<times> event list" where
  "extract_weather_data_multi w lat lon sd ed active_groups temporal_resolution =
     (case strptime w sd of
        None \<Rightarrow> (Inl DateFormatError, [])
      | Some start \<Rightarrow>
     (case strptime w ed of
        None \<Rightarrow> (Inl DateFormatError, [])
      | Some end' \<Rightarrow>
        if start > end' then (Inl InvalidDateRange, [])
        else
          (case fetch_loop w lat lon sd ed active_groups ([], []) of
             (all_dataframes, trace) \<Rightarrow>
               (merge_and_resample all_dataframes temporal_resolution, trace))))"

text \<open>
  The mapping that \<^verbatim>\<open>main\<close> builds from the configuration's
  \<^verbatim>\<open>variable_groups\<close>: one entry per catalog group, in catalog order, disabled when the
  configuration does not name it.
\<close>

definition main_active_groups :: "(string \<times> bool) list \<Rightarrow> (string \<times> bool) list" where
  "main_active_groups variable_groups =
     map (\<lambda>group. (group, case map_of variable_groups group of Some b \<Rightarrow> b | None \<Rightarrow> False))
         (map fst get_available_groups)"

section \<open>Observing a run\<close>

text \<open>
  The groups a run fetches, in the order of the mapping: the enabled entries that the
  catalog knows.
\<close>

definition planned_groups :: "(string \<times> bool) list \<Rightarrow> string list" where
  "planned_groups active_groups =
     map fst (filter (\<lambda>item. snd item \<and> map_of VARIABLE_GROUPS (fst item) \<noteq> None) active_groups)"

text \<open>The groups of the catalog that a mapping enables, in the order of the catalog.\<close>

definition catalog_order :: "(string \<times> bool) list \<Rightarrow> string list" where
  "catalog_order active_groups =
     filter (\<lambda>g. map_of active_groups g = Some True) (map fst VARIABLE_GROUPS)"

definition group_params :: "rat \<Rightarrow> rat \<Rightarrow> string \<Rightarrow> string \<Rightarrow> string \<Rightarrow> params" where
  "group_params lat lon sd ed g =
     request_params lat lon sd ed (case map_of VARIABLE_GROUPS g of Some vs \<Rightarrow> vs | None \<Rightarrow> [])"


fun requests :: "event list \<Rightarrow> params list" where
  "requests [] = []"
| "requests (HttpGet p # es) = p # requests es"
| "requests (e # es) = requests es"






section \<open>Sample tables and runs\<close>

definition sample_strptime :: "string \<Rightarrow> date option" where
  "sample_strptime s =
     (if s = ''2024-01-01'' then Some (2024, 1, 1)
      else if s = ''2024-01-02'' then Some (2024, 1, 2)
      else None)"

definition soil_table :: frame where
  "soil_table =
     \<lparr>columns = [''soil_temperature_0cm'', ''soil_temperature_6cm'', ''soil_moisture_0_1cm''],
      rows = [(((2024, 1, 1), 0, 0), [Num 5, Num 6, Num (3 / 10)]),
              (((2024, 1, 1), 1, 0), [Num 4, Num 6, Missing])]\<rparr>"

definition soil_query :: string where
  "soil_query = ''soil_temperature_0cm,soil_temperature_6cm,soil_moisture_0_1cm''"

definition solar_query :: string where
  "solar_query = ''shortwave_radiation,direct_radiation,diffuse_radiation''"

text \<open>A source that answers the soil request only.\<close>

definition soil_only_world :: world where
  "soil_only_world =
     \<lparr>strptime = sample_strptime,
      http_get = (\<lambda>p. if hourly p = soil_query then Hourly (WithTime soil_table)
                      else if hourly p = solar_query then NoHourly
                      else TransportError)\<rparr>"

definition empty_soil_table :: frame where
  "empty_soil_table = soil_table\<lparr>rows := []\<rparr>"

definition empty_soil_world :: world where
  "empty_soil_world =
     \<lparr>strptime = sample_strptime,
      http_get = (\<lambda>p. if hourly p = soil_query then Hourly (WithTime empty_soil_table)
                      else TransportError)\<rparr>"

definition untimed_soil_world :: world where
  "untimed_soil_world =
     \<lparr>strptime = sample_strptime,
      http_get = (\<lambda>p. if hourly p = soil_query
                      then Hourly (WithoutTime (columns soil_table) [[Num 5, Num 6, Num (3 / 10)]])
                      else TransportError)\<rparr>"

definition all_groups_on :: "(string \<times> bool) list" where
  "all_groups_on = [(''basic_weather'', True), (''solar_radiation'', True), (''soil'', True)]"

definition soil_first :: "(string \<times> bool) list" where
  "soil_first = [(''soil'', True), (''attic'', True), (''solar_radiation'', False), (''basic_weather'', True)]"


definition basic_first :: "(string \<times> bool) list" where
  "basic_first = [(''basic_weather'', True), (''solar_radiation'', False), (''soil'', True), (''attic'', True)]"

definition row_at :: "frame \<Rightarrow> timestamp \<Rightarrow> cell list" where
  "row_at f k = (case map_of (rows f) k of Some vs \<Rightarrow> vs | None \<Rightarrow> null_cells (length (columns f)))"







definition cell_of :: "frame \<Rightarrow> timestamp \<Rightarrow> string \<Rightarrow> cell option" where
  "cell_of f t c =
     (case map_of (rows f) t of None \<Rightarrow> None | Some vs \<Rightarrow> map_of (zip (columns f) vs) c)"

definition summary_cell :: "summary \<Rightarrow> date \<Rightarrow> string \<Rightarrow> cell option" where
  "summary_cell s d c =
     (case map_of (srows s) d of None \<Rightarrow> None | Some vs \<Rightarrow> map_of (zip (scolumns s) vs) c)"


definition one_day_table :: frame where
  "one_day_table =
     \<lparr>columns = [''temperature_2m''],
      rows = [(((2024, 3, 5), 0, 0), [Num 10]), (((2024, 3, 5), 1, 0), [Num 20]),
              (((2024, 3, 5), 2, 0), [Num 30])]\<rparr>"


definition missing_month_table :: frame where
  "missing_month_table =
     \<lparr>columns = [''soil_moisture_0_1cm''],
      rows = [(((2024, 1, 1), 0, 0), [Missing]), (((2024, 1, 1), 1, 0), [Missing]),
              (((2024, 2, 1), 0, 0), [Num (3 / 10)])]\<rparr>"

section \<open>The fetch loop in closed form\<close>

lemma requests_append: "requests (xs @ ys) = requests xs @ requests ys"
  by (induction xs rule: requests.induct) simp_all


lemma fetch_group_skip:
  "\<not> (inc \<and> map_of VARIABLE_GROUPS g \<noteq> None) \<Longrightarrow> fetch_group w lat lon sd ed (g, inc) st = st"
  by (cases st) (auto simp: fetch_group_def)


lemma fetch_group_requests:
  "inc \<Longrightarrow> map_of VARIABLE_GROUPS g \<noteq> None \<Longrightarrow>
   requests (snd (fetch_group w lat lon sd ed (g, inc) (dfs, tr))) =
     requests tr @ [group_params lat lon sd ed g]"
  by (auto simp: fetch_group_def group_params_def Let_def requests_append split: response.splits)



lemma fetch_loop_requests:
  "requests (snd (fetch_loop w lat lon sd ed ag st)) =
     requests (snd st) @ map (group_params lat lon sd ed) (planned_groups ag)"
proof (induction ag arbitrary: st)
  case Nil
  show ?case by (simp add: planned_groups_def)
next
  case (Cons item ag)
  obtain g inc where item: "item = (g, inc)" by (cases item)
  obtain dfs tr where st: "st = (dfs, tr)" by (cases st)
  show ?case
  proof (cases "inc \<and> map_of VARIABLE_GROUPS g \<noteq> None")
    case True
    then show ?thesis
      using fetch_group_requests [of inc g w lat lon sd ed dfs tr]
      by (simp add: Cons.IH item st planned_groups_def)
  next
    case False
    then show ?thesis
      using fetch_group_skip [of inc g w lat lon sd ed st]
      by (auto simp add: Cons.IH item planned_groups_def)
  qed
qed


lemma fetch_loop_ignores_unknown:
  "fetch_loop w lat lon sd ed (filter (\<lambda>item. map_of VARIABLE_GROUPS (fst item) \<noteq> None) ag) st =
   fetch_loop w lat lon sd ed ag st"
proof (induction ag arbitrary: st)
  case Nil
  show ?case by simp
next
  case (Cons item ag)
  obtain g inc where item: "item = (g, inc)" by (cases item)
  show ?case
  proof (cases "map_of VARIABLE_GROUPS g = None")
    case True
    then have "fetch_group w lat lon sd ed (g, inc) st = st"
      by (simp add: fetch_group_skip)
    with True show ?thesis using Cons.IH [of st] by (simp add: item)
  next
    case False
    then show ?thesis
      using Cons.IH [of "fetch_group w lat lon sd ed (g, inc) st"] by (simp add: item)
  qed
qed

lemma merge_loop_error: "merge_loop m dfs = Inl e \<Longrightarrow> e = KeyErrorTime"
  by (induction m dfs rule: merge_loop.induct) simp_all

lemma sort_values_time_error: "sort_values_time m = Inl e \<Longrightarrow> e = KeyErrorTime"
  by (cases m) simp_all



lemma merge_and_resample_error:
  "merge_and_resample dfs res = Inl e \<Longrightarrow> e = NoDataRetrieved \<and> dfs = [] \<or> e = KeyErrorTime \<and> dfs \<noteq> []"
  by (auto simp: merge_and_resample_def split: list.splits sum.splits
           dest: merge_loop_error sort_values_time_error)

lemma extract_valid:
  assumes "strptime w sd = Some start" and "strptime w ed = Some end'" and "start \<le> end'"
  shows "extract_weather_data_multi w lat lon sd ed ag res =
     (merge_and_resample (fst (fetch_loop w lat lon sd ed ag ([], []))) res,
      snd (fetch_loop w lat lon sd ed ag ([], [])))"
proof -
  have "\<not> end' < start" using assms(3) by (rule leD)
  with assms(1,2) show ?thesis
    by (simp add: extract_weather_data_multi_def split: prod.splits)
qed





section \<open>Sample runs evaluated\<close>




lemma sample_dates:
  "strptime soil_only_world ''2024-01-01'' = Some (2024, 1, 1)"
  "strptime soil_only_world ''2024-01-02'' = Some (2024, 1, 2)"
  "strptime empty_soil_world ''2024-01-01'' = Some (2024, 1, 1)"
  "strptime empty_soil_world ''2024-01-02'' = Some (2024, 1, 2)"
  "strptime untimed_soil_world ''2024-01-01'' = Some (2024, 1, 1)"
  "strptime untimed_soil_world ''2024-01-02'' = Some (2024, 1, 2)"
  by (simp_all add: soil_only_world_def empty_soil_world_def untimed_soil_world_def sample_strptime_def)

lemma sample_range: "((2024, 1, 1) :: date) \<le> (2024, 1, 2)"
  by simp





lemma planned_soil_first: "planned_groups soil_first = [''soil'', ''basic_weather'']"
  by (simp add: planned_groups_def soil_first_def VARIABLE_GROUPS_def)

lemma planned_basic_first: "planned_groups basic_first = [''basic_weather'', ''soil'']"
  by (simp add: planned_groups_def basic_first_def VARIABLE_GROUPS_def)

lemma catalog_order_soil_first: "catalog_order soil_first = [''basic_weather'', ''soil'']"
  by (simp add: catalog_order_def soil_first_def VARIABLE_GROUPS_def)

lemma soil_basic_params:
  "group_params lat lon sd ed ''soil'' \<noteq> group_params lat lon sd ed ''basic_weather''"
  by (simp add: group_params_def request_params_def VARIABLE_GROUPS_def)

section \<open>What the merge stage receives\<close>





lemma planned_main_active_groups:
  "planned_groups (main_active_groups cfg) = catalog_order cfg"
proof -
  have known: "map_of VARIABLE_GROUPS g \<noteq> None" if "g \<in> set (map fst VARIABLE_GROUPS)" for g
    using that by (simp add: map_of_eq_None_iff)
  have step: "map fst (filter (\<lambda>item. snd item \<and> map_of VARIABLE_GROUPS (fst item) \<noteq> None)
                  (map (\<lambda>group. (group, case map_of cfg group of Some b \<Rightarrow> b | None \<Rightarrow> False)) gs))
        = filter (\<lambda>g. map_of cfg g = Some True) gs"
    if "set gs \<subseteq> set (map fst VARIABLE_GROUPS)" for gs
    using that
  proof (induction gs)
    case Nil
    show ?case by simp
  next
    case (Cons g gs)
    then have "map_of VARIABLE_GROUPS g \<noteq> None" using known [of g] by simp
    with Cons show ?case by (auto split: option.splits)
  qed
  show ?thesis
    unfolding planned_groups_def main_active_groups_def catalog_order_def get_available_groups_def
    by (rule step) (rule subset_refl)
qed

lemma extract_ignores_unknown:
  "extract_weather_data_multi w lat lon sd ed
     (filter (\<lambda>item. map_of VARIABLE_GROUPS (fst item) \<noteq> None) ag) res =
   extract_weather_data_multi w lat lon sd ed ag res"
  unfolding extract_weather_data_multi_def fetch_loop_ignores_unknown ..

section \<open>The outer join\<close>







lemma rows_merge_step_length: "length (rows (merge_step a b)) = length (rows (pd_merge a b))"
  by (simp add: merge_step_def drop_dup_columns_def)

















lemma wf_row_length: "wf_frame f \<Longrightarrow> (k, vs) \<in> set (rows f) \<Longrightarrow> length vs = length (columns f)"
  by (auto simp: wf_frame_def list_all_iff)

lemma row_at_member:
  "distinct (timestamps f) \<Longrightarrow> (k, vs) \<in> set (rows f) \<Longrightarrow> row_at f k = vs"
  by (simp add: row_at_def timestamps_def)














section \<open>Date validation\<close>

text \<open>
  Claim C9. When both date strings parse, the run fails with the date-range error exactly
  when the start date is strictly after the end date, and such a run ends with no event at
  all: no request has been issued.
\<close>

theorem invalid_date_range_iff:
  assumes "strptime w sd = Some start" and "strptime w ed = Some end'"
  shows "(fst (extract_weather_data_multi w lat lon sd ed active_groups res) = Inl InvalidDateRange
            \<longleftrightarrow> end' < start)
       \<and> (end' < start \<longrightarrow> snd (extract_weather_data_multi w lat lon sd ed active_groups res) = [])"
proof (cases "end' < start")
  case True
  with assms show ?thesis by (simp add: extract_weather_data_multi_def)
next
  case False
  then have le: "start \<le> end'" by (simp add: not_less)
  have "merge_and_resample dfs res \<noteq> Inl InvalidDateRange" for dfs
    using merge_and_resample_error [of dfs res InvalidDateRange] by auto
  with False show ?thesis by (simp add: extract_valid [OF assms le])
qed

theorem invalid_date_range_witness:
  "fst (extract_weather_data_multi soil_only_world 52 13 ''2024-01-02'' ''2024-01-01'' all_groups_on ''hourly'')
     = Inl InvalidDateRange
   \<and> snd (extract_weather_data_multi soil_only_world 52 13 ''2024-01-02'' ''2024-01-01'' all_groups_on ''hourly'')
     = []
   \<and> fst (extract_weather_data_multi soil_only_world 52 13 ''2024-01-01'' ''2024-01-01'' all_groups_on ''hourly'')
     \<noteq> Inl InvalidDateRange"
  using invalid_date_range_iff [of soil_only_world "''2024-01-02''" "(2024, 1, 2)" "''2024-01-01''" "(2024, 1, 1)"
          52 13 all_groups_on "''hourly''"]
        invalid_date_range_iff [of soil_only_world "''2024-01-01''" "(2024, 1, 1)" "''2024-01-01''" "(2024, 1, 1)"
          52 13 all_groups_on "''hourly''"]
  by (simp add: soil_only_world_def sample_strptime_def)

section \<open>Failure of single groups\<close>



section \<open>No data retrieved\<close>




section \<open>Order of requests\<close>

text \<open>
  Claim C4, amended. In a run with a valid date range the requests are issued in the
  iteration order of the input mapping, one for every enabled entry that the catalog
  knows; the mapping that the command line builds enumerates the catalog, so there the
  requests follow the catalog's order; entries with identifiers unknown to the catalog
  change neither the result nor the events of the run.
\<close>

theorem requests_follow_mapping_order:
  assumes "strptime w sd = Some start" and "strptime w ed = Some end'" and "start \<le> end'"
  shows "requests (snd (extract_weather_data_multi w lat lon sd ed ag res)) =
           map (group_params lat lon sd ed) (planned_groups ag)
       \<and> requests (snd (extract_weather_data_multi w lat lon sd ed (main_active_groups cfg) res)) =
           map (group_params lat lon sd ed) (catalog_order cfg)
       \<and> extract_weather_data_multi w lat lon sd ed
           (filter (\<lambda>item. map_of VARIABLE_GROUPS (fst item) \<noteq> None) ag) res =
         extract_weather_data_multi w lat lon sd ed ag res"
proof -
  have "requests (snd (extract_weather_data_multi w lat lon sd ed ag' res)) =
           map (group_params lat lon sd ed) (planned_groups ag')" for ag'
    by (simp add: extract_valid [OF assms] fetch_loop_requests)
  then show ?thesis
    using extract_ignores_unknown [of w lat lon sd ed ag res]
    by (simp only: planned_main_active_groups)
qed

theorem requests_follow_mapping_order_witness:
  "map hourly (requests (snd (extract_weather_data_multi soil_only_world 52 13 ''2024-01-01''
                                 ''2024-01-02'' soil_first ''hourly'')))
   = [soil_query,
      ''temperature_2m,apparent_temperature,relative_humidity_2m,dewpoint_2m,precipitation,rain,snowfall,wind_speed_10m,wind_direction_10m,pressure_msl,surface_pressure,cloud_cover,cloud_cover_low,cloud_cover_mid,cloud_cover_high'']"
  using requests_follow_mapping_order [of soil_only_world "''2024-01-01''" "(2024, 1, 1)" "''2024-01-02''"
          "(2024, 1, 2)" 52 13 soil_first "''hourly''" "[]"]
  by (simp add: sample_dates planned_soil_first group_params_def request_params_def
        VARIABLE_GROUPS_def soil_query_def)

text \<open>
  The claim as stated fails: two mappings with the same entries in different order issue
  their requests in different order, and the mapping that names soil first does not follow
  the catalog, which lists basic weather first.
\<close>

theorem requests_catalog_order_counterexample:
  "set soil_first = set basic_first
   \<and> requests (snd (extract_weather_data_multi soil_only_world 52 13 ''2024-01-01'' ''2024-01-02''
                      soil_first ''hourly''))
     \<noteq> requests (snd (extract_weather_data_multi soil_only_world 52 13 ''2024-01-01'' ''2024-01-02''
                        basic_first ''hourly''))
   \<and> requests (snd (extract_weather_data_multi soil_only_world 52 13 ''2024-01-01'' ''2024-01-02''
                      soil_first ''hourly''))
     \<noteq> map (group_params 52 13 ''2024-01-01'' ''2024-01-02'') (catalog_order soil_first)"
proof -
  have "set soil_first = set basic_first"
    by (auto simp: soil_first_def basic_first_def)
  then show ?thesis
    using soil_basic_params [of 52 13 "''2024-01-01''" "''2024-01-02''"]
    by (simp add: extract_valid [OF sample_dates(1) sample_dates(2) sample_range]
          fetch_loop_requests planned_soil_first planned_basic_first catalog_order_soil_first)
qed

section \<open>Timestamps of the merged table\<close>





section \<open>Merging a table with itself\<close>





section \<open>Rounding, statistics and column names\<close>



lemma round_cell_Missing: "round_cell n Missing = Missing"
  by simp






lemma stat_name_inj: "c @ ''_'' @ stat_name s = c' @ ''_'' @ stat_name s' \<Longrightarrow> c = c' \<and> s = s'"
proof -
  assume eq: "c @ ''_'' @ stat_name s = c' @ ''_'' @ stat_name s'"
  then have "rev (c @ ''_'' @ stat_name s) = rev (c' @ ''_'' @ stat_name s')" by simp
  then show ?thesis by (cases s; cases s') simp_all
qed

lemma flatten_names_product:
  "flatten_names stats cols = map (\<lambda>p. fst p @ ''_'' @ stat_name (snd p)) (List.product cols stats)"
  by (induction cols) (simp_all add: flatten_names_def comp_def)

lemma flatten_values_product:
  "concat (map (\<lambda>c. map (\<lambda>s. F c s) stats) cols) = map (\<lambda>p. F (fst p) (snd p)) (List.product cols stats)"
  by (induction cols) (simp_all add: comp_def)

lemma distinct_flatten_names:
  assumes "distinct cols" and "distinct stats"
  shows "distinct (flatten_names stats cols)"
proof -
  have "inj_on (\<lambda>p. fst p @ ''_'' @ stat_name (snd p)) (set (List.product cols stats))"
  proof (rule inj_onI)
    fix p q :: "string \<times> stat"
    assume "fst p @ ''_'' @ stat_name (snd p) = fst q @ ''_'' @ stat_name (snd q)"
    then have "fst p = fst q \<and> snd p = snd q" by (rule stat_name_inj)
    then show "p = q" by (simp add: prod_eq_iff)
  qed
  with assms show ?thesis
    by (simp add: flatten_names_product distinct_map distinct_product)
qed

lemma flatten_lookup:
  assumes "distinct cols" and "distinct stats" and "c \<in> set cols" and "s \<in> set stats"
  shows "map_of (zip (flatten_names stats cols) (concat (map (\<lambda>c. map (\<lambda>s. F c s) stats) cols)))
           (c @ ''_'' @ stat_name s) = Some (F c s)"
proof -
  let ?ps = "List.product cols stats"
  let ?n = "\<lambda>p. fst p @ ''_'' @ stat_name (snd p)"
  have zip: "zip (flatten_names stats cols) (concat (map (\<lambda>c. map (\<lambda>s. F c s) stats) cols)) =
        map (\<lambda>p. (?n p, F (fst p) (snd p))) ?ps"
    by (simp only: flatten_names_product flatten_values_product zip_map_map zip_same_conv_map
          map_map comp_def split_conv)
  have "distinct (map fst (map (\<lambda>p. (?n p, F (fst p) (snd p))) ?ps))"
    using distinct_flatten_names [OF assms(1,2)]
    by (simp add: flatten_names_product comp_def)
  moreover have "(?n (c, s), F (fst (c, s)) (snd (c, s))) \<in> set (map (\<lambda>p. (?n p, F (fst p) (snd p))) ?ps)"
    using assms(3,4) by (simp only: set_map) (rule imageI, simp)
  ultimately have "map_of (map (\<lambda>p. (?n p, F (fst p) (snd p))) ?ps) (?n (c, s)) =
        Some (F (fst (c, s)) (snd (c, s)))"
    by (rule map_of_is_SomeI)
  then show ?thesis by (simp only: zip fst_conv snd_conv)
qed

lemma flatten_names_not_time: "''time'' \<notin> set (flatten_names stats cols)"
proof
  assume "''time'' \<in> set (flatten_names stats cols)"
  then obtain p where "''time'' = fst p @ ''_'' @ stat_name (snd p)"
    by (auto simp: flatten_names_product)
  then have "rev ''time'' = rev (fst p @ ''_'' @ stat_name (snd p))" by simp
  then show False by (cases "snd p") simp_all
qed

section \<open>Grouped aggregation\<close>

text \<open>
  The variables of the catalog are pairwise different, none has a name that the pipeline
  uses for a column of its own, and none ends in the suffix of the merge.
\<close>

lemma catalog_variable_names:
  "distinct (concat (map snd VARIABLE_GROUPS))"
  "''time'' \<notin> set (concat (map snd VARIABLE_GROUPS))"
  "''date'' \<notin> set (concat (map snd VARIABLE_GROUPS))"
  "''year_month'' \<notin> set (concat (map snd VARIABLE_GROUPS))"
  "list_all (\<lambda>c. \<not> endswith c ''_dup'') (concat (map snd VARIABLE_GROUPS))"
  by (simp_all add: VARIABLE_GROUPS_def endswith_def)

lemma numeric_cols_daily:
  "''time'' \<notin> set cols \<Longrightarrow> ''date'' \<notin> set cols \<Longrightarrow>
   filter (\<lambda>col. col \<notin> set [''time'', ''date'']) cols = cols"
  by (induction cols) auto

lemma numeric_cols_monthly:
  "''time'' \<notin> set cols \<Longrightarrow> ''date'' \<notin> set cols \<Longrightarrow> ''year_month'' \<notin> set cols \<Longrightarrow>
   filter (\<lambda>col. col \<notin> set [''time'', ''date'', ''year_month'']) cols = cols"
  by (induction cols) auto


lemma map_of_keyed:
  "inj h \<Longrightarrow> k \<in> set ks \<Longrightarrow> map_of (map (\<lambda>k. (h k, g k)) ks) (h k) = Some (g k)"
  by (induction ks) (auto dest: injD)

lemma groupby_agg_row:
  assumes "inj h" and "k \<in> set (map (\<lambda>r. key (fst r)) (rows f))"
  shows "map_of (map (\<lambda>g. (h (fst g), snd g)) (groupby_agg key stats cols f)) (h k) =
     Some (concat (map (\<lambda>c. map (\<lambda>s. round_cell 2 (agg s (group_cells key f k c))) stats) cols))"
proof -
  have "k \<in> set (sort (remdups (map (\<lambda>r. key (fst r)) (rows f))))"
    using assms(2) by simp
  with assms(1) show ?thesis
    unfolding groupby_agg_def map_map comp_def fst_conv snd_conv
    by (rule map_of_keyed)
qed

lemma groupby_agg_cell:
  assumes "inj h" and "k \<in> set (map (\<lambda>r. key (fst r)) (rows f))"
    and "distinct cols" and "distinct stats" and "c \<in> set cols" and "s \<in> set stats"
  shows "(case map_of (map (\<lambda>g. (h (fst g), snd g)) (groupby_agg key stats cols f)) (h k) of
            None \<Rightarrow> None
          | Some vs \<Rightarrow> map_of (zip (flatten_names stats cols) vs) (c @ ''_'' @ stat_name s)) =
         Some (round_cell 2 (agg s (group_cells key f k c)))"
  by (simp only: groupby_agg_row [OF assms(1,2)] option.case
        flatten_lookup [OF assms(3-6), of "\<lambda>c s. round_cell 2 (agg s (group_cells key f k c))"])

lemma inj_midnight: "inj midnight"
  by (rule injI) (simp add: midnight_def)

lemma inj_month_start: "inj month_start"
  by (rule injI) (simp add: month_start_def split: prod.splits)




lemma resample_to_daily_plain:
  assumes "wf_frame f" and "''date'' \<notin> set (columns f)"
  shows "resample_to_daily f =
     \<lparr>columns = flatten_names [StatMean, StatMin, StatMax] (columns f),
      rows = map (\<lambda>g. (midnight (fst g), snd g))
               (groupby_agg date_of [StatMean, StatMin, StatMax] (columns f) f)\<rparr>"
proof -
  have "filter (\<lambda>col. col \<notin> set [''time'', ''date'']) (columns f) = columns f"
    using assms by (intro numeric_cols_daily) (simp_all add: wf_frame_def)
  then show ?thesis by (simp only: resample_to_daily_def Let_def)
qed



lemma one_day_table_facts:
  "wf_frame one_day_table"
  "''date'' \<notin> set (columns one_day_table)"
  "map date_of (timestamps one_day_table) = [(2024, 3, 5), (2024, 3, 5), (2024, 3, 5)]"
  "numbers (group_cells date_of one_day_table (2024, 3, 5) ''temperature_2m'') = [10, 20, 30]"
  "columns one_day_table = [''temperature_2m'']"
  "columns one_day_table \<noteq> []"
  by (simp_all add: one_day_table_def wf_frame_def timestamps_def date_of_def group_cells_def
        cell_at_def)



section \<open>Daily resampling\<close>



section \<open>Monthly buckets\<close>

lemma agg_Sum: "agg StatSum cs = Num (sum_list (numbers cs))"
  by simp




lemma resample_to_monthly_plain:
  assumes "wf_frame f" and "''date'' \<notin> set (columns f)" and "''year_month'' \<notin> set (columns f)"
  shows "resample_to_monthly f =
     \<lparr>columns = flatten_names [StatMean, StatMin, StatMax, StatSum] (columns f),
      rows = map (\<lambda>g. (month_start (fst g), snd g))
               (groupby_agg year_month_of [StatMean, StatMin, StatMax, StatSum] (columns f) f)\<rparr>"
proof -
  have "filter (\<lambda>col. col \<notin> set [''time'', ''date'', ''year_month'']) (columns f) = columns f"
    using assms by (intro numeric_cols_monthly) (simp_all add: wf_frame_def)
  then show ?thesis by (simp only: resample_to_monthly_def Let_def)
qed






section \<open>Monthly resampling\<close>


section \<open>Cells of the resampled tables\<close>

lemma flatten_names_not_date: "''date'' \<notin> set (flatten_names stats cols)"
proof
  assume "''date'' \<in> set (flatten_names stats cols)"
  then obtain p where "''date'' = fst p @ ''_'' @ stat_name (snd p)"
    by (auto simp: flatten_names_product)
  then have "rev ''date'' = rev (fst p @ ''_'' @ stat_name (snd p))" by simp
  then show False by (cases "snd p") simp_all
qed

lemma cell_at_appended:
  assumes "length vs = length cs" and "c \<in> set cs"
  shows "cell_at (cs @ [n]) (vs @ [x]) c = cell_at cs vs c"
proof -
  from assms(1) have "map fst (zip cs vs) = cs" by simp
  then have "fst ` set (zip cs vs) = set cs" using set_map [of fst "zip cs vs"] by simp
  with assms(2) have "map_of (zip cs vs) c \<noteq> None"
    by (simp only: map_of_eq_None_iff) simp
  then obtain v where "map_of (zip cs vs) c = Some v" by blast
  with assms(1) show ?thesis by (simp add: cell_at_def)
qed

lemma set_date_column_appends:
  assumes "''date'' \<notin> set (columns f)"
  shows "set_date_column f =
     \<lparr>columns = columns f @ [''date''],
      rows = map (\<lambda>r. (fst r, snd r @ [Day (date_of (fst r))])) (rows f)\<rparr>"
  using assms by (simp add: set_date_column_def)

lemma timestamps_set_date_column: "timestamps (set_date_column f) = timestamps f"
  by (simp add: set_date_column_def timestamps_def comp_def)

lemma columns_set_date_column: "''date'' \<in> set (columns (set_date_column f))"
  by (simp add: set_date_column_def)

lemma group_cells_set_date_column:
  assumes "wf_frame f" and "''date'' \<notin> set (columns f)" and "c \<in> set (columns f)"
  shows "group_cells key (set_date_column f) k c = group_cells key f k c"
proof -
  have row: "cell_at (columns f @ [''date'']) (snd r @ [Day (date_of (fst r))]) c =
             cell_at (columns f) (snd r) c" if "r \<in> set (rows f)" for r
  proof -
    from that have "(fst r, snd r) \<in> set (rows f)" by simp
    with assms(1) have "length (snd r) = length (columns f)" by (rule wf_row_length)
    then show ?thesis using assms(3) by (rule cell_at_appended)
  qed
  have "map (\<lambda>r. cell_at (columns f @ [''date'']) (snd r @ [Day (date_of (fst r))]) c)
            (filter (\<lambda>r. key (fst r) = k) (rows f)) =
        map (\<lambda>r. cell_at (columns f) (snd r) c) (filter (\<lambda>r. key (fst r) = k) (rows f))"
    by (rule map_cong) (simp_all add: row)
  then show ?thesis
    by (simp add: group_cells_def set_date_column_appends [OF assms(2)] filter_map comp_def)
qed

lemma daily_summary_plain:
  assumes "wf_frame f" and "''date'' \<notin> set (columns f)"
  shows "get_daily_summary (WithTime f) =
     (Inr \<lparr>scolumns = flatten_names [StatMean, StatMin, StatMax, StatSum] (columns f),
           srows = groupby_agg date_of [StatMean, StatMin, StatMax, StatSum] (columns f)
                     (set_date_column f)\<rparr>,
      WithTime (set_date_column f))"
proof -
  have "filter (\<lambda>col. col \<notin> set [''time'', ''date'']) (columns f) = columns f"
    using assms by (intro numeric_cols_daily) (simp_all add: wf_frame_def)
  then have "filter (\<lambda>col. col \<notin> set [''time'', ''date'']) (columns (set_date_column f)) = columns f"
    by (simp add: set_date_column_appends [OF assms(2)])
  then show ?thesis by (simp add: Let_def)
qed

lemma map_of_self_keyed: "k \<in> set ks \<Longrightarrow> map_of (map (\<lambda>k. (k, g k)) ks) k = Some (g k)"
  by (induction ks) auto

lemma groupby_agg_row_plain:
  assumes "k \<in> set (map (\<lambda>r. key (fst r)) (rows f))"
  shows "map_of (groupby_agg key stats cols f) k =
     Some (concat (map (\<lambda>c. map (\<lambda>s. round_cell 2 (agg s (group_cells key f k c))) stats) cols))"
proof -
  have "k \<in> set (sort (remdups (map (\<lambda>r. key (fst r)) (rows f))))"
    using assms by simp
  then show ?thesis
    unfolding groupby_agg_def by (rule map_of_self_keyed)
qed

lemma daily_summary_cell:
  assumes "wf_frame f" and "''date'' \<notin> set (columns f)"
    and "d \<in> set (map date_of (timestamps f))" and "c \<in> set (columns f)"
    and "s \<in> set [StatMean, StatMin, StatMax, StatSum]"
  shows "\<exists>sm. fst (get_daily_summary (WithTime f)) = Inr sm
           \<and> summary_cell sm d (c @ ''_'' @ stat_name s) =
               Some (round_cell 2 (agg s (group_cells date_of f d c)))"
proof -
  let ?stats = "[StatMean, StatMin, StatMax, StatSum]"
  let ?sm = "\<lparr>scolumns = flatten_names ?stats (columns f),
              srows = groupby_agg date_of ?stats (columns f) (set_date_column f)\<rparr>"
  have "map (\<lambda>r. date_of (fst r)) (rows (set_date_column f)) =
        map date_of (timestamps (set_date_column f))"
    by (simp add: timestamps_def)
  then have d: "d \<in> set (map (\<lambda>r. date_of (fst r)) (rows (set_date_column f)))"
    using assms(3) by (simp only: timestamps_set_date_column)
  have dist: "distinct (columns f)" using assms(1) by (simp add: wf_frame_def)
  have stats: "distinct ?stats" by simp
  have "summary_cell ?sm d (c @ ''_'' @ stat_name s) =
      Some (round_cell 2 (agg s (group_cells date_of (set_date_column f) d c)))"
    by (simp only: summary_cell_def summary.simps groupby_agg_row_plain [OF d] option.case
          flatten_lookup [OF dist stats assms(4,5),
            of "\<lambda>c s. round_cell 2 (agg s (group_cells date_of (set_date_column f) d c))"])
  then have "summary_cell ?sm d (c @ ''_'' @ stat_name s) =
      Some (round_cell 2 (agg s (group_cells date_of f d c)))"
    by (simp only: group_cells_set_date_column [OF assms(1,2,4)])
  moreover have "fst (get_daily_summary (WithTime f)) = Inr ?sm"
    by (simp only: daily_summary_plain [OF assms(1,2)] fst_conv)
  ultimately show ?thesis by blast
qed

lemma resample_to_daily_cell:
  assumes "wf_frame f" and "''date'' \<notin> set (columns f)"
    and "d \<in> set (map date_of (timestamps f))" and "c \<in> set (columns f)"
    and "s \<in> set [StatMean, StatMin, StatMax]"
  shows "cell_of (resample_to_daily f) (midnight d) (c @ ''_'' @ stat_name s) =
           Some (round_cell 2 (agg s (group_cells date_of f d c)))"
proof -
  have d: "d \<in> set (map (\<lambda>r. date_of (fst r)) (rows f))"
    using assms(3) by (simp add: timestamps_def comp_def)
  have dist: "distinct (columns f)" using assms(1) by (simp add: wf_frame_def)
  have "distinct [StatMean, StatMin, StatMax]" by simp
  from groupby_agg_cell [OF inj_midnight d dist this assms(4,5)]
  show ?thesis by (simp only: cell_of_def resample_to_daily_plain [OF assms(1,2)] frame.simps)
qed

lemma resample_to_monthly_cell:
  assumes "wf_frame f" and "''date'' \<notin> set (columns f)" and "''year_month'' \<notin> set (columns f)"
    and "ym \<in> set (map year_month_of (timestamps f))" and "c \<in> set (columns f)"
    and "s \<in> set [StatMean, StatMin, StatMax, StatSum]"
  shows "cell_of (resample_to_monthly f) (month_start ym) (c @ ''_'' @ stat_name s) =
           Some (round_cell 2 (agg s (group_cells year_month_of f ym c)))"
proof -
  have m: "ym \<in> set (map (\<lambda>r. year_month_of (fst r)) (rows f))"
    using assms(4) by (simp add: timestamps_def comp_def)
  have dist: "distinct (columns f)" using assms(1) by (simp add: wf_frame_def)
  have "distinct [StatMean, StatMin, StatMax, StatSum]" by simp
  from groupby_agg_cell [OF inj_month_start m dist this assms(5,6)]
  show ?thesis by (simp only: cell_of_def resample_to_monthly_plain [OF assms(1,2,3)] frame.simps)
qed

lemma agg_all_missing:
  assumes "numbers cs = []"
  shows "round_cell 2 (agg StatMean cs) = Missing" "round_cell 2 (agg StatMin cs) = Missing"
    "round_cell 2 (agg StatMax cs) = Missing" "round_cell 2 (agg StatSum cs) = Num 0"
  using assms by (simp_all add: rint_def)

lemma missing_month_facts:
  "wf_frame missing_month_table"
  "''date'' \<notin> set (columns missing_month_table)"
  "''year_month'' \<notin> set (columns missing_month_table)"
  "''soil_moisture_0_1cm'' \<in> set (columns missing_month_table)"
  "(2024, 1) \<in> set (map year_month_of (timestamps missing_month_table))"
  "(2024, 1, 1) \<in> set (map date_of (timestamps missing_month_table))"
  "numbers (group_cells year_month_of missing_month_table (2024, 1) ''soil_moisture_0_1cm'') = []"
  "numbers (group_cells date_of missing_month_table (2024, 1, 1) ''soil_moisture_0_1cm'') = []"
  by (simp_all add: missing_month_table_def wf_frame_def timestamps_def year_month_of_def
        date_of_def group_cells_def cell_at_def)

section \<open>Buckets without a value\<close>

text \<open>
  Claim C5, amended. For a well-formed table without columns named \<^verbatim>\<open>date\<close> or
  \<^verbatim>\<open>year_month\<close>, and a column whose values in a bucket (a calendar date, a calendar
  month) are all missing: the mean, the minimum and the maximum of that column in that
  bucket are the missing value, in the daily and the monthly resampling and in the daily
  summary; the sum, which the monthly resampling and the daily summary emit, is zero.
\<close>

theorem all_missing_bucket:
  assumes "wf_frame f" and "''date'' \<notin> set (columns f)" and "''year_month'' \<notin> set (columns f)"
    and "c \<in> set (columns f)"
  shows "(\<forall>d \<in> set (map date_of (timestamps f)). numbers (group_cells date_of f d c) = [] \<longrightarrow>
            cell_of (resample_to_daily f) (midnight d) (c @ ''_mean'') = Some Missing
          \<and> cell_of (resample_to_daily f) (midnight d) (c @ ''_min'') = Some Missing
          \<and> cell_of (resample_to_daily f) (midnight d) (c @ ''_max'') = Some Missing
          \<and> (\<exists>sm. fst (get_daily_summary (WithTime f)) = Inr sm
                \<and> summary_cell sm d (c @ ''_mean'') = Some Missing
                \<and> summary_cell sm d (c @ ''_min'') = Some Missing
                \<and> summary_cell sm d (c @ ''_max'') = Some Missing
                \<and> summary_cell sm d (c @ ''_sum'') = Some (Num 0)))
     \<and> (\<forall>ym \<in> set (map year_month_of (timestamps f)).
            numbers (group_cells year_month_of f ym c) = [] \<longrightarrow>
            cell_of (resample_to_monthly f) (month_start ym) (c @ ''_mean'') = Some Missing
          \<and> cell_of (resample_to_monthly f) (month_start ym) (c @ ''_min'') = Some Missing
          \<and> cell_of (resample_to_monthly f) (month_start ym) (c @ ''_max'') = Some Missing
          \<and> cell_of (resample_to_monthly f) (month_start ym) (c @ ''_sum'') = Some (Num 0))"
proof -
  have daily: "cell_of (resample_to_daily f) (midnight d) (c @ ''_mean'') = Some Missing
          \<and> cell_of (resample_to_daily f) (midnight d) (c @ ''_min'') = Some Missing
          \<and> cell_of (resample_to_daily f) (midnight d) (c @ ''_max'') = Some Missing"
    if d: "d \<in> set (map date_of (timestamps f))"
      and none: "numbers (group_cells date_of f d c) = []" for d
    using resample_to_daily_cell [OF assms(1,2) d assms(4), of StatMean]
      resample_to_daily_cell [OF assms(1,2) d assms(4), of StatMin]
      resample_to_daily_cell [OF assms(1,2) d assms(4), of StatMax]
    by (simp add: agg_all_missing [OF none] del: agg.simps)
  have summary: "\<exists>sm. fst (get_daily_summary (WithTime f)) = Inr sm
                \<and> summary_cell sm d (c @ ''_mean'') = Some Missing
                \<and> summary_cell sm d (c @ ''_min'') = Some Missing
                \<and> summary_cell sm d (c @ ''_max'') = Some Missing
                \<and> summary_cell sm d (c @ ''_sum'') = Some (Num 0)"
    if d: "d \<in> set (map date_of (timestamps f))"
      and none: "numbers (group_cells date_of f d c) = []" for d
  proof -
    obtain sm where sm: "fst (get_daily_summary (WithTime f)) = Inr sm"
      using daily_summary_plain [OF assms(1,2)] by simp
    have "summary_cell sm d (c @ ''_'' @ stat_name s) =
        Some (round_cell 2 (agg s (group_cells date_of f d c)))"
      if "s \<in> set [StatMean, StatMin, StatMax, StatSum]" for s
      using daily_summary_cell [OF assms(1,2) d assms(4) that] sm by auto
    from this [of StatMean] this [of StatMin] this [of StatMax] this [of StatSum] sm
    show ?thesis
      by (simp add: agg_all_missing [OF none] del: agg.simps)
  qed
  have monthly: "cell_of (resample_to_monthly f) (month_start ym) (c @ ''_mean'') = Some Missing
          \<and> cell_of (resample_to_monthly f) (month_start ym) (c @ ''_min'') = Some Missing
          \<and> cell_of (resample_to_monthly f) (month_start ym) (c @ ''_max'') = Some Missing
          \<and> cell_of (resample_to_monthly f) (month_start ym) (c @ ''_sum'') = Some (Num 0)"
    if ym: "ym \<in> set (map year_month_of (timestamps f))"
      and none: "numbers (group_cells year_month_of f ym c) = []" for ym
    using resample_to_monthly_cell [OF assms(1,2,3) ym assms(4), of StatMean]
      resample_to_monthly_cell [OF assms(1,2,3) ym assms(4), of StatMin]
      resample_to_monthly_cell [OF assms(1,2,3) ym assms(4), of StatMax]
      resample_to_monthly_cell [OF assms(1,2,3) ym assms(4), of StatSum]
    by (simp add: agg_all_missing [OF none] del: agg.simps)
  from daily summary monthly show ?thesis by blast
qed

theorem all_missing_bucket_witness:
  "cell_of (resample_to_daily missing_month_table) ((2024, 1, 1), 0, 0) ''soil_moisture_0_1cm_mean''
     = Some Missing
   \<and> cell_of (resample_to_monthly missing_month_table) ((2024, 1, 1), 0, 0) ''soil_moisture_0_1cm_max''
     = Some Missing
   \<and> cell_of (resample_to_monthly missing_month_table) ((2024, 1, 1), 0, 0) ''soil_moisture_0_1cm_sum''
     = Some (Num 0)"
proof -
  note buckets = all_missing_bucket [OF missing_month_facts(1,2,3,4)]
  from buckets missing_month_facts(6,8)
  have "cell_of (resample_to_daily missing_month_table) (midnight (2024, 1, 1))
          (''soil_moisture_0_1cm'' @ ''_mean'') = Some Missing"
    by blast
  moreover from buckets missing_month_facts(5,7)
  have "cell_of (resample_to_monthly missing_month_table) (month_start (2024, 1))
          (''soil_moisture_0_1cm'' @ ''_max'') = Some Missing
      \<and> cell_of (resample_to_monthly missing_month_table) (month_start (2024, 1))
          (''soil_moisture_0_1cm'' @ ''_sum'') = Some (Num 0)"
    by blast
  ultimately show ?thesis by (simp add: midnight_def month_start_def)
qed


text \<open>
  The claim as stated fails for the sum: the month (and the day) in which every soil
  moisture value is missing has the sum 0, in the monthly resampling and in the daily
  summary alike, next to a month that has a value.
\<close>

theorem all_missing_sum_counterexample:
  "numbers (group_cells year_month_of missing_month_table (2024, 1) ''soil_moisture_0_1cm'') = []
   \<and> resample_to_monthly missing_month_table =
       \<lparr>columns = [''soil_moisture_0_1cm_mean'', ''soil_moisture_0_1cm_min'',
                   ''soil_moisture_0_1cm_max'', ''soil_moisture_0_1cm_sum''],
        rows = [(((2024, 1, 1), 0, 0), [Missing, Missing, Missing, Num 0]),
                (((2024, 2, 1), 0, 0),
                 [Num (3 / 10), Num (3 / 10), Num (3 / 10), Num (3 / 10)])]\<rparr>
   \<and> fst (get_daily_summary (WithTime missing_month_table)) =
       Inr \<lparr>scolumns = [''soil_moisture_0_1cm_mean'', ''soil_moisture_0_1cm_min'',
                        ''soil_moisture_0_1cm_max'', ''soil_moisture_0_1cm_sum''],
            srows = [((2024, 1, 1), [Missing, Missing, Missing, Num 0]),
                     ((2024, 2, 1),
                      [Num (3 / 10), Num (3 / 10), Num (3 / 10), Num (3 / 10)])]\<rparr>"
  by (simp add: missing_month_table_def resample_to_monthly_def groupby_agg_def group_cells_def
        cell_at_def year_month_of_def date_of_def month_start_def flatten_names_def
        set_date_column_def rint_def Let_def)

section \<open>The date column of the daily summary\<close>

lemma replaced_cell:
  assumes "length vs = length cs" and "c \<in> set cs"
  shows "cell_at cs (map (\<lambda>cv. if fst cv = c then x else snd cv) (zip cs vs)) c = x"
  using assms
proof (induction vs cs rule: list_induct2)
  case Nil
  then show ?case by simp
next
  case (Cons v vs c' cs)
  then show ?case by (cases "c' = c") (simp_all add: cell_at_def)
qed

lemma appended_cell:
  assumes "length vs = length cs" and "c \<notin> set cs"
  shows "cell_at (cs @ [c]) (vs @ [x]) c = x"
proof -
  from assms(1) have "map fst (zip cs vs) = cs" by simp
  then have "fst ` set (zip cs vs) = set cs" using set_map [of fst "zip cs vs"] by simp
  with assms(2) have none: "map_of (zip cs vs) c = None"
    by (simp only: map_of_eq_None_iff) simp
  show ?thesis using assms(1) by (simp add: cell_at_def map_add_def none)
qed

lemma date_cell_set:
  assumes "wf_frame f" and "r \<in> set (rows (set_date_column f))"
  shows "cell_at (columns (set_date_column f)) (snd r) ''date'' = Day (date_of (fst r))"
proof (cases "''date'' \<in> set (columns f)")
  case True
  with assms(2) obtain r0 where r0: "r0 \<in> set (rows f)"
    and r: "r = (fst r0, map (\<lambda>cv. if fst cv = ''date'' then Day (date_of (fst r0)) else snd cv)
                           (zip (columns f) (snd r0)))"
    by (auto simp: set_date_column_def)
  from r0 have "(fst r0, snd r0) \<in> set (rows f)" by simp
  with assms(1) have "length (snd r0) = length (columns f)" by (rule wf_row_length)
  from replaced_cell [OF this True, of "Day (date_of (fst r0))"] True
  show ?thesis by (simp add: r set_date_column_def)
next
  case False
  with assms(2) obtain r0 where r0: "r0 \<in> set (rows f)"
    and r: "r = (fst r0, snd r0 @ [Day (date_of (fst r0))])"
    by (auto simp: set_date_column_def)
  from r0 have "(fst r0, snd r0) \<in> set (rows f)" by simp
  with assms(1) have "length (snd r0) = length (columns f)" by (rule wf_row_length)
  from appended_cell [OF this False, of "Day (date_of (fst r0))"] False
  show ?thesis by (simp add: r set_date_column_def)
qed

lemma daily_summary_result:
  "get_daily_summary (WithTime f) =
     (Inr \<lparr>scolumns = flatten_names [StatMean, StatMin, StatMax, StatSum]
                        (filter (\<lambda>col. col \<notin> set [''time'', ''date''])
                                (columns (set_date_column f))),
           srows = groupby_agg date_of [StatMean, StatMin, StatMax, StatSum]
                     (filter (\<lambda>col. col \<notin> set [''time'', ''date''])
                             (columns (set_date_column f)))
                     (set_date_column f)\<rparr>,
      WithTime (set_date_column f))"
  by (simp add: Let_def)

section \<open>The daily summary changes its argument\<close>

text \<open>
  Claim C10. The daily summary leaves the caller's table with a \<^verbatim>\<open>date\<close> column: the
  table after the call is the table with that column set, which holds, in every row of a
  well-formed table, the calendar date of the row's timestamp, the timestamps unchanged;
  when the table had no such column, the column is new, at the end, and the table after the
  call differs from the table before. For a table with a column to aggregate, the summary
  returned starts with the column \<^verbatim>\<open>date\<close> and has no column \<^verbatim>\<open>time\<close>, while the
  table of the daily resampling starts with \<^verbatim>\<open>time\<close> and has no column
  \<^verbatim>\<open>date\<close>.
\<close>

theorem daily_summary_changes_caller_table:
  "snd (get_daily_summary (WithTime f)) = WithTime (set_date_column f)
   \<and> ''date'' \<in> set (columns (set_date_column f))
   \<and> timestamps (set_date_column f) = timestamps f
   \<and> (wf_frame f \<longrightarrow>
        (\<forall>r \<in> set (rows (set_date_column f)).
           cell_at (columns (set_date_column f)) (snd r) ''date'' = Day (date_of (fst r))))
   \<and> (''date'' \<notin> set (columns f) \<longrightarrow>
        columns (set_date_column f) = columns f @ [''date'']
        \<and> snd (get_daily_summary (WithTime f)) \<noteq> WithTime f)
   \<and> ((\<exists>c \<in> set (columns f). c \<noteq> ''date'') \<longrightarrow>
        (\<exists>sm. fst (get_daily_summary (WithTime f)) = Inr sm
           \<and> hd (summary_column_names sm) = ''date''
           \<and> ''time'' \<notin> set (summary_column_names sm))
        \<and> hd (frame_column_names (resample_to_daily f)) = ''time''
        \<and> ''date'' \<notin> set (frame_column_names (resample_to_daily f)))"
proof -
  have after: "snd (get_daily_summary (WithTime f)) = WithTime (set_date_column f)"
    by (simp only: daily_summary_result snd_conv)
  have cells: "wf_frame f \<longrightarrow>
        (\<forall>r \<in> set (rows (set_date_column f)).
           cell_at (columns (set_date_column f)) (snd r) ''date'' = Day (date_of (fst r)))"
    using date_cell_set [of f] by blast
  have changed: "columns (set_date_column f) = columns f @ [''date'']
        \<and> snd (get_daily_summary (WithTime f)) \<noteq> WithTime f"
    if "''date'' \<notin> set (columns f)"
  proof -
    have cols: "columns (set_date_column f) = columns f @ [''date'']"
      using that by (simp add: set_date_column_def)
    then have "columns (set_date_column f) \<noteq> columns f" by simp
    then have "set_date_column f \<noteq> f" by auto
    with cols show ?thesis by (simp only: after) simp
  qed
  have summary: "\<exists>sm. fst (get_daily_summary (WithTime f)) = Inr sm
          \<and> hd (summary_column_names sm) = ''date''
          \<and> ''time'' \<notin> set (summary_column_names sm)"
    by (simp only: daily_summary_result fst_conv)
       (simp add: summary_column_names_def flatten_names_not_time)
  have daily: "hd (frame_column_names (resample_to_daily f)) = ''time''
      \<and> ''date'' \<notin> set (frame_column_names (resample_to_daily f))"
    by (simp add: frame_column_names_def resample_to_daily_def Let_def flatten_names_not_date)
  from after columns_set_date_column [of f] timestamps_set_date_column [of f] cells changed
    summary daily
  show ?thesis by blast
qed

theorem daily_summary_changes_caller_table_witness:
  "snd (get_daily_summary (WithTime one_day_table)) =
     WithTime \<lparr>columns = [''temperature_2m'', ''date''],
               rows = [(((2024, 3, 5), 0, 0), [Num 10, Day (2024, 3, 5)]),
                       (((2024, 3, 5), 1, 0), [Num 20, Day (2024, 3, 5)]),
                       (((2024, 3, 5), 2, 0), [Num 30, Day (2024, 3, 5)])]\<rparr>
   \<and> snd (get_daily_summary (WithTime one_day_table)) \<noteq> WithTime one_day_table"
proof -
  note summary = daily_summary_changes_caller_table [of one_day_table]
  from summary have "snd (get_daily_summary (WithTime one_day_table)) =
      WithTime (set_date_column one_day_table)"
    by (rule conjunct1)
  moreover from summary have "''date'' \<notin> set (columns one_day_table) \<longrightarrow>
        columns (set_date_column one_day_table) = columns one_day_table @ [''date'']
        \<and> snd (get_daily_summary (WithTime one_day_table)) \<noteq> WithTime one_day_table"
    by (rule conjunct2 [THEN conjunct2, THEN conjunct2, THEN conjunct2, THEN conjunct1])
  then have "snd (get_daily_summary (WithTime one_day_table)) \<noteq> WithTime one_day_table"
    using one_day_table_facts(2) by blast
  moreover have "set_date_column one_day_table =
      \<lparr>columns = [''temperature_2m'', ''date''],
               rows = [(((2024, 3, 5), 0, 0), [Num 10, Day (2024, 3, 5)]),
                       (((2024, 3, 5), 1, 0), [Num 20, Day (2024, 3, 5)]),
                       (((2024, 3, 5), 2, 0), [Num 30, Day (2024, 3, 5)])]\<rparr>"
    by (simp add: set_date_column_def one_day_table_def date_of_def)
  ultimately show ?thesis by (simp only:) simp
qed

end
